theory Spec2Isabelle
  imports Complex_Main
begin

section \<open>Text\<close>

text \<open>
  A Python \<open>str\<close> is a sequence of code points. The development covers texts over the
  code points U+0000 to U+00FF: one \<^typ>\<open>char\<close> is one code point, so that
  \<open>CHR 0xF3\<close> is the letter o with acute accent and \<open>CHR 0xE9\<close> the letter e with
  acute accent. On this range the character classes of Python (\<open>str.isspace\<close>, the
  \<open>\s\<close>, \<open>\d\<close>, \<open>\w\<close> of \<open>re\<close>, \<open>str.lower\<close>) are the finite tables below.
\<close>

definition code_point :: "char \<Rightarrow> nat" where
  "code_point c = of_char c"

text \<open>\<open>str.isspace\<close>, also the class \<open>\s\<close>: TAB to CR, FS to US, space, NEL, NBSP.\<close>

definition is_space :: "char \<Rightarrow> bool" where
  "is_space c = (let n = code_point c in
     (9 \<le> n \<and> n \<le> 13) \<or> (28 \<le> n \<and> n \<le> 32) \<or> n = 133 \<or> n = 160)"

text \<open>The class \<open>\d\<close> (general category Nd): below U+0100 these are the ASCII digits.\<close>

definition is_decimal :: "char \<Rightarrow> bool" where
  "is_decimal c = (let n = code_point c in 48 \<le> n \<and> n \<le> 57)"

text \<open>Upper-case letters: A to Z, and U+00C0 to U+00DE without the multiplication sign.\<close>

definition is_upper :: "char \<Rightarrow> bool" where
  "is_upper c = (let n = code_point c in
     (65 \<le> n \<and> n \<le> 90) \<or> (192 \<le> n \<and> n \<le> 222 \<and> n \<noteq> 215))"

text \<open>
  The class \<open>\w\<close>: alphanumeric code points and the underscore. Below U+0100 the
  alphanumerics are the ASCII letters and digits, the ordinal indicators, the superscript
  digits, the micro sign, the vulgar fractions and the accented letters.
\<close>

definition is_word :: "char \<Rightarrow> bool" where
  "is_word c = (let n = code_point c in
     (48 \<le> n \<and> n \<le> 57) \<or> (65 \<le> n \<and> n \<le> 90) \<or> n = 95 \<or> (97 \<le> n \<and> n \<le> 122) \<or>
     n = 170 \<or> n = 178 \<or> n = 179 \<or> n = 181 \<or> n = 185 \<or> n = 186 \<or>
     (188 \<le> n \<and> n \<le> 190) \<or> (192 \<le> n \<and> n \<le> 214) \<or> (216 \<le> n \<and> n \<le> 246) \<or>
     (248 \<le> n \<and> n \<le> 255))"

text \<open>Lower-casing adds 32 to the code point of an upper-case letter, that is, sets bit 5.\<close>

fun lower_char :: "char \<Rightarrow> char" where
  "lower_char (Char b0 b1 b2 b3 b4 b5 b6 b7) =
     (if is_upper (Char b0 b1 b2 b3 b4 b5 b6 b7) then Char b0 b1 b2 b3 b4 True b6 b7
      else Char b0 b1 b2 b3 b4 b5 b6 b7)"

definition lower :: "string \<Rightarrow> string" where
  "lower s = map lower_char s"

text \<open>\<open>s.strip(chars)\<close> removes the leading and the trailing characters of a class.\<close>

definition strip_chars :: "(char \<Rightarrow> bool) \<Rightarrow> string \<Rightarrow> string" where
  "strip_chars p s = rev (dropWhile p (rev (dropWhile p s)))"

definition strip :: "string \<Rightarrow> string" where
  "strip s = strip_chars is_space s"

text \<open>\<open>s.replace(old, new)\<close> for a one-character \<open>old\<close>.\<close>

definition replace_char :: "char \<Rightarrow> string \<Rightarrow> string \<Rightarrow> string" where
  "replace_char old new s = concat (map (\<lambda>c. if c = old then new else [c]) s)"

text \<open>\<open>sep.join(parts)\<close>.\<close>

fun join :: "string \<Rightarrow> string list \<Rightarrow> string" where
  "join sep [] = []"
| "join sep [p] = p"
| "join sep (p # q # ps) = p @ sep @ join sep (q # ps)"

text \<open>
  \<open>s.splitlines()\<close>: a line ends at LF, CR, CR LF, VT, FF, FS, GS, RS or NEL; the line
  ends are dropped and no empty last line is produced. \<open>cur\<close> is the current line, reversed.
\<close>

definition is_linebreak :: "char \<Rightarrow> bool" where
  "is_linebreak c = (let n = code_point c in
     (10 \<le> n \<and> n \<le> 13) \<or> (28 \<le> n \<and> n \<le> 30) \<or> n = 133)"

fun splitlines_acc :: "string \<Rightarrow> string \<Rightarrow> string list" where
  "splitlines_acc cur [] = (if cur = [] then [] else [rev cur])"
| "splitlines_acc cur [c] = (if is_linebreak c then [rev cur] else [rev (c # cur)])"
| "splitlines_acc cur (c # d # cs) =
     (if c = CHR 0x0D \<and> d = CHR 0x0A then rev cur # splitlines_acc [] cs
      else if is_linebreak c then rev cur # splitlines_acc [] (d # cs)
      else splitlines_acc (c # cur) (d # cs))"

definition splitlines :: "string \<Rightarrow> string list" where
  "splitlines s = splitlines_acc [] s"

section \<open>Floats\<close>

text \<open>
  A Python \<open>float\<close> is modelled by the number its decimal notation denotes, or one of the
  three special values; the rounding of that number to a binary64 value is not modelled.
  Two floats parsed from notations of the same number are equal in Python as well.
\<close>

datatype pyfloat = Fin real | PInf | NInf | NaN

text \<open>\<open>float(s)\<close> on a \<open>str\<close> raises nothing but \<open>ValueError\<close>.\<close>

datatype float_error = ValueError

definition digit_value :: "char \<Rightarrow> nat" where
  "digit_value c = code_point c - 48"

definition digits_value :: "string \<Rightarrow> nat" where
  "digits_value ds = foldl (\<lambda>acc d. 10 * acc + digit_value d) 0 ds"

text \<open>
  An underscore is accepted only between two digits and is dropped; \<open>prev\<close> is the
  character before the current one. \<open>None\<close> is a misplaced underscore.
\<close>

fun strip_underscores :: "char option \<Rightarrow> string \<Rightarrow> string option" where
  "strip_underscores prev [] = (if prev = Some CHR ''_'' then None else Some [])"
| "strip_underscores prev (c # cs) =
     (if c = CHR ''_'' then
        (case prev of
           None \<Rightarrow> None
         | Some p \<Rightarrow> if is_decimal p then strip_underscores (Some c) cs else None)
      else if prev = Some CHR ''_'' \<and> \<not> is_decimal c then None
      else map_option ((#) c) (strip_underscores (Some c) cs))"

definition split_sign :: "string \<Rightarrow> bool \<times> string" where
  "split_sign s = (case s of
      [] \<Rightarrow> (False, [])
    | c # cs \<Rightarrow> if c = CHR ''-'' then (True, cs) else if c = CHR ''+'' then (False, cs) else (False, s))"

definition scale10 :: "nat \<Rightarrow> int \<Rightarrow> real" where
  "scale10 m e = (if 0 \<le> e then real m * 10 ^ nat e else real m / 10 ^ nat (- e))"

text \<open>The exponent part: nothing, or \<open>e\<close>, an optional sign and at least one digit.\<close>

definition parse_exponent :: "string \<Rightarrow> int option" where
  "parse_exponent s = (case s of
      [] \<Rightarrow> Some 0
    | c # cs \<Rightarrow>
        if c = CHR ''e'' \<or> c = CHR ''E'' then
          (let (neg, ds) = split_sign cs in
           if ds \<noteq> [] \<and> list_all is_decimal ds
           then Some (if neg then - int (digits_value ds) else int (digits_value ds))
           else None)
        else None)"

text \<open>
  An unsigned finite number: digits, an optional point with digits, with at least one digit
  before or after the point, then the exponent part; nothing may follow.
\<close>

definition parse_decimal :: "string \<Rightarrow> real option" where
  "parse_decimal s =
     (let ip = takeWhile is_decimal s;
          r1 = dropWhile is_decimal s;
          (fp, r2) = (case r1 of
                        [] \<Rightarrow> ([], [])
                      | c # cs \<Rightarrow> if c = CHR ''.'' then (takeWhile is_decimal cs, dropWhile is_decimal cs)
                                  else ([], r1))
      in if ip = [] \<and> fp = [] then None
         else map_option (\<lambda>e. scale10 (digits_value (ip @ fp)) (e - int (length fp))) (parse_exponent r2))"

text \<open>
  The white space \<open>float\<close> itself removes around the number: the ASCII white space TAB to
  CR and space, and the white space beyond ASCII (NEL, NBSP).
\<close>

definition float_strip :: "string \<Rightarrow> string" where
  "float_strip s = strip_chars (\<lambda>c. c \<in> set [CHR 0x09, CHR 0x0A, CHR 0x0B, CHR 0x0C, CHR 0x0D, CHR '' '', CHR 0x85, CHR 0xA0]) s"

text \<open>The builtin \<open>float(s)\<close> for a \<open>str\<close>.\<close>

definition py_float :: "string \<Rightarrow> float_error + pyfloat" where
  "py_float str =
     (case strip_underscores None str of
        None \<Rightarrow> Inl ValueError
      | Some u \<Rightarrow>
          (let (neg, body) = split_sign (float_strip u) in
           if lower body = ''inf'' \<or> lower body = ''infinity'' then Inr (if neg then NInf else PInf)
           else if lower body = ''nan'' then Inr NaN
           else (case parse_decimal body of
                   None \<Rightarrow> Inl ValueError
                 | Some v \<Rightarrow> Inr (Fin (if neg then - v else v)))))"

text \<open>Float addition, and the builtin \<open>sum\<close>, which adds from the left starting at 0.\<close>

fun fadd :: "pyfloat \<Rightarrow> pyfloat \<Rightarrow> pyfloat" where
  "fadd (Fin a) (Fin b) = Fin (a + b)"
| "fadd NaN _ = NaN"
| "fadd _ NaN = NaN"
| "fadd PInf NInf = NaN"
| "fadd NInf PInf = NaN"
| "fadd PInf _ = PInf"
| "fadd _ PInf = PInf"
| "fadd NInf _ = NInf"
| "fadd _ NInf = NInf"

definition py_sum :: "pyfloat list \<Rightarrow> pyfloat" where
  "py_sum vals = foldl fadd (Fin 0) vals"

section \<open>The numeric normalizer\<close>

text \<open>
  \<open>_to_float\<close> of \<open>genera_scraper.py\<close>. The separators are rewritten in
  \<open>normalize_separators\<close> (the \<open>if\<close>/\<open>else\<close> on the stripped string), then \<open>float\<close> is
  tried and its \<open>ValueError\<close> is caught.
\<close>

definition normalize_separators :: "string \<Rightarrow> string" where
  "normalize_separators s =
     (if CHR '','' \<in> set s \<and> CHR ''.'' \<in> set s then replace_char CHR '','' [] s
      else if CHR '','' \<in> set s then replace_char CHR '','' ''.'' (replace_char CHR ''.'' [] s)
      else s)"

definition to_float :: "string option \<Rightarrow> pyfloat option" where
  "to_float num_str =
     (case num_str of
        None \<Rightarrow> None
      | Some n \<Rightarrow>
          if n = [] then None
          else (case py_float (normalize_separators (strip n)) of
                  Inl ValueError \<Rightarrow> None
                | Inr v \<Rightarrow> Some v))"

text \<open>
  \<open>_to_float\<close> of \<open>genera_plants_scraper.py\<close>: the same steps with \<open>elif\<close>, and a bare
  \<open>except\<close> around \<open>float\<close>.
\<close>

definition to_float_plants :: "string option \<Rightarrow> pyfloat option" where
  "to_float_plants s =
     (case s of
        None \<Rightarrow> None
      | Some n \<Rightarrow>
          if n = [] then None
          else
            (let x = strip n;
                 x = (if CHR '','' \<in> set x \<and> CHR ''.'' \<in> set x then replace_char CHR '','' [] x
                      else if CHR '','' \<in> set x then replace_char CHR '','' ''.'' (replace_char CHR ''.'' [] x)
                      else x)
             in (case py_float x of
                   Inl _ \<Rightarrow> None
                 | Inr v \<Rightarrow> Some v)))"

section \<open>Regular expressions\<close>

text \<open>
  The patterns of the repository are written in a small syntax tree and run by a
  backtracking matcher in the way of Python's \<open>re\<close>: alternatives are tried from left
  to right, a greedy repetition tries one more round before it tries to stop, a lazy one
  tries to stop first, and the first success is the match.
\<close>

datatype item = Lit char | Digit | Space

datatype regex =
    Eps
  | Sym "item list"
  | NotSym "item list"
  | Seq regex regex
  | Alt regex regex
  | Star bool regex
  | Grp nat regex
  | WordB

text \<open>
  \<open>Sym items\<close> is the class \<open>[...]\<close> (a single character is a class of one item),
  \<open>NotSym items\<close> is \<open>[^...]\<close>, \<open>Star True r\<close> is \<open>r*\<close>, \<open>Star False r\<close> is
  \<open>r*?\<close>, \<open>Grp i r\<close> is the \<open>i\<close>-th capturing group and \<open>WordB\<close> is \<open>\b\<close>.
\<close>

definition lit :: "string \<Rightarrow> regex" where
  "lit s = foldr (\<lambda>c r. Seq (Sym [Lit c]) r) s Eps"

definition seqs :: "regex list \<Rightarrow> regex" where
  "seqs rs = foldr Seq rs Eps"

definition plus :: "regex \<Rightarrow> regex" where
  "plus r = Seq r (Star True r)"

definition opt :: "regex \<Rightarrow> regex" where
  "opt r = Alt r Eps"

definition spaces :: regex where
  "spaces = Star True (Sym [Space])"

text \<open>
  Membership of a character in a class item; \<open>ic\<close> is the flag \<open>re.IGNORECASE\<close>, under
  which a literal matches the characters with the same lower case.
\<close>

fun in_item :: "bool \<Rightarrow> item \<Rightarrow> char \<Rightarrow> bool" where
  "in_item ic (Lit c) x = (if ic then lower_char x = lower_char c else x = c)"
| "in_item ic Digit x = is_decimal x"
| "in_item ic Space x = is_space x"

text \<open>
  A matcher state: the character before the current position, the text from the current
  position on, and the groups captured so far (the latest first).
\<close>

record mstate =
  prev :: "char option"
  rest :: string
  caps :: "(nat \<times> string) list"

definition step_char :: "(char \<Rightarrow> bool) \<Rightarrow> mstate \<Rightarrow> mstate list" where
  "step_char p st =
     (case rest st of
        [] \<Rightarrow> []
      | x # xs \<Rightarrow> if p x then [st\<lparr>prev := Some x, rest := xs\<rparr>] else [])"

definition word_before :: "mstate \<Rightarrow> bool" where
  "word_before st = (case prev st of None \<Rightarrow> False | Some c \<Rightarrow> is_word c)"

definition word_after :: "mstate \<Rightarrow> bool" where
  "word_after st = (case rest st of [] \<Rightarrow> False | c # _ \<Rightarrow> is_word c)"

text \<open>
  The rounds of a repetition, as the list of the states it can end in, in the order the
  matcher tries them. A round that consumes nothing is not repeated, so a text of \<open>n\<close>
  characters allows at most \<open>n\<close> rounds.
\<close>

primrec star_iter :: "nat \<Rightarrow> bool \<Rightarrow> (mstate \<Rightarrow> mstate list) \<Rightarrow> mstate \<Rightarrow> mstate list" where
  "star_iter 0 greedy body st = [st]"
| "star_iter (Suc n) greedy body st =
     (let again = concat (map (star_iter n greedy body)
                    (filter (\<lambda>t. length (rest t) < length (rest st)) (body st)))
      in if greedy then again @ [st] else st # again)"

text \<open>All the ways a pattern matches at a state, in the order of the matcher's tries.\<close>

primrec matches :: "bool \<Rightarrow> regex \<Rightarrow> mstate \<Rightarrow> mstate list" where
  "matches ic Eps st = [st]"
| "matches ic (Sym items) st = step_char (\<lambda>x. list_ex (\<lambda>i. in_item ic i x) items) st"
| "matches ic (NotSym items) st = step_char (\<lambda>x. \<not> list_ex (\<lambda>i. in_item ic i x) items) st"
| "matches ic (Seq a b) st = concat (map (matches ic b) (matches ic a st))"
| "matches ic (Alt a b) st = matches ic a st @ matches ic b st"
| "matches ic (Star greedy a) st = star_iter (length (rest st)) greedy (matches ic a) st"
| "matches ic (Grp i a) st =
     map (\<lambda>t. t\<lparr>caps := (i, take (length (rest st) - length (rest t)) (rest st)) # caps t\<rparr>)
       (matches ic a st)"
| "matches ic WordB st = (if word_before st \<noteq> word_after st then [st] else [])"

text \<open>A match object: \<open>m.start()\<close>, \<open>m.group(0)\<close> and the captured groups.\<close>

record rematch =
  start :: nat
  matched :: string
  groups :: "(nat \<times> string) list"

definition re_group :: "rematch \<Rightarrow> nat \<Rightarrow> string option" where
  "re_group m i = (if i = 0 then Some (matched m) else map_of (groups m) i)"

text \<open>The match at the position \<open>pos\<close>, where \<open>s\<close> is the text from there on.\<close>

definition match_at :: "bool \<Rightarrow> regex \<Rightarrow> nat \<Rightarrow> char option \<Rightarrow> string \<Rightarrow> rematch option" where
  "match_at ic r pos pc s =
     (case matches ic r \<lparr>prev = pc, rest = s, caps = []\<rparr> of
        [] \<Rightarrow> None
      | t # _ \<Rightarrow> Some \<lparr>start = pos, matched = take (length s - length (rest t)) s, groups = caps t\<rparr>)"

text \<open>\<open>re.search\<close>: the match at the leftmost position that has one.\<close>

fun search_at :: "bool \<Rightarrow> regex \<Rightarrow> nat \<Rightarrow> char option \<Rightarrow> string \<Rightarrow> rematch option" where
  "search_at ic r pos pc [] = match_at ic r pos pc []"
| "search_at ic r pos pc (c # cs) =
     (case match_at ic r pos pc (c # cs) of
        Some m \<Rightarrow> Some m
      | None \<Rightarrow> search_at ic r (Suc pos) (Some c) cs)"

definition re_search :: "bool \<Rightarrow> regex \<Rightarrow> string \<Rightarrow> rematch option" where
  "re_search ic r s = search_at ic r 0 None s"


text \<open>
  \<open>finditer\<close>: the matches from left to right, without overlap. \<open>skip\<close> counts the
  characters still inside the previous match.
\<close>

fun finditer_at :: "bool \<Rightarrow> regex \<Rightarrow> nat \<Rightarrow> nat \<Rightarrow> char option \<Rightarrow> string \<Rightarrow> rematch list" where
  "finditer_at ic r skip pos pc [] =
     (if skip = 0 then (case match_at ic r pos pc [] of None \<Rightarrow> [] | Some m \<Rightarrow> [m]) else [])"
| "finditer_at ic r skip pos pc (c # cs) =
     (if 0 < skip then finditer_at ic r (skip - 1) (Suc pos) (Some c) cs
      else (case match_at ic r pos pc (c # cs) of
              None \<Rightarrow> finditer_at ic r 0 (Suc pos) (Some c) cs
            | Some m \<Rightarrow> m # finditer_at ic r (length (matched m) - 1) (Suc pos) (Some c) cs))"

definition finditer :: "bool \<Rightarrow> regex \<Rightarrow> string \<Rightarrow> rematch list" where
  "finditer ic r s = finditer_at ic r 0 0 None s"

text \<open>\<open>re.sub(r, repl, s)\<close> for a replacement text without group references.\<close>

fun sub_at :: "bool \<Rightarrow> regex \<Rightarrow> string \<Rightarrow> nat \<Rightarrow> char option \<Rightarrow> string \<Rightarrow> string" where
  "sub_at ic r repl skip pc [] =
     (if skip = 0 \<and> match_at ic r 0 pc [] \<noteq> None then repl else [])"
| "sub_at ic r repl skip pc (c # cs) =
     (if 0 < skip then sub_at ic r repl (skip - 1) (Some c) cs
      else (case match_at ic r 0 pc (c # cs) of
              None \<Rightarrow> c # sub_at ic r repl 0 (Some c) cs
            | Some m \<Rightarrow>
                if matched m = [] then repl @ c # sub_at ic r repl 0 (Some c) cs
                else repl @ sub_at ic r repl (length (matched m) - 1) (Some c) cs))"

definition re_sub :: "bool \<Rightarrow> regex \<Rightarrow> string \<Rightarrow> string \<Rightarrow> string" where
  "re_sub ic r repl s = sub_at ic r repl 0 None s"

section \<open>Dictionaries\<close>

text \<open>
  A Python \<open>dict\<close> is a list of key-value pairs in insertion order. \<open>dict_set\<close> is
  \<open>d[k] = v\<close>: an existing key keeps its place.
\<close>

fun dict_set :: "('k \<times> 'v) list \<Rightarrow> 'k \<Rightarrow> 'v \<Rightarrow> ('k \<times> 'v) list" where
  "dict_set [] k v = [(k, v)]"
| "dict_set ((k', v') # d) k v = (if k' = k then (k, v) # d else (k', v') # dict_set d k v)"

definition dict_get :: "('k \<times> 'v) list \<Rightarrow> 'k \<Rightarrow> 'v option" where
  "dict_get d k = map_of d k"

definition dict_keys :: "('k \<times> 'v) list \<Rightarrow> 'k list" where
  "dict_keys d = map fst d"

definition setdefault :: "('k \<times> 'v) list \<Rightarrow> 'k \<Rightarrow> 'v \<Rightarrow> ('k \<times> 'v) list" where
  "setdefault d k v = (if k \<in> set (dict_keys d) then d else d @ [(k, v)])"

section \<open>The fuel mix parser of \<open>genera_scraper.py\<close>\<close>

text \<open>
  \<open>FUEL_REGEX\<close>, compiled with \<open>re.IGNORECASE\<close>:
  \<^verbatim>\<open>(Gas\s*Natural|Carb[oO']n|Bunker\s*/?\s*Di[E'e]sel|Renovables|Otros)\s*[:\-]?\s*([\d\.,]+)\s*%\<close>
  where \<open>O'\<close> and \<open>E'\<close> stand for the accented letters U+00F3 and U+00E9.
\<close>

definition FUEL_REGEX :: regex where
  "FUEL_REGEX = seqs
     [Grp 1
        (Alt (seqs [lit ''Gas'', spaces, lit ''Natural''])
        (Alt (seqs [lit ''Carb'', Sym [Lit CHR ''o'', Lit (CHR 0xF3)], lit ''n''])
        (Alt (seqs [lit ''Bunker'', spaces, opt (lit ''/''), spaces, lit ''Di'',
                    Sym [Lit (CHR 0xE9), Lit CHR ''e''], lit ''sel''])
        (Alt (lit ''Renovables'')
             (lit ''Otros''))))),
      spaces, opt (Sym [Lit CHR '':'', Lit CHR ''-'']), spaces,
      Grp 2 (plus (Sym [Digit, Lit CHR ''.'', Lit CHR '',''])),
      spaces, lit ''%'']"

definition LABEL_NORMALIZE :: "(string \<times> string) list" where
  "LABEL_NORMALIZE =
     [(''gas natural'', ''gas_natural''),
      (''carb'' @ [CHR 0xF3] @ ''n'', ''carbon''),
      (''carbon'', ''carbon''),
      (''bunker di'' @ [CHR 0xE9] @ ''sel'', ''bunker_diesel''),
      (''bunker diesel'', ''bunker_diesel''),
      (''renovables'', ''renovables''),
      (''otros'', ''otros'')]"

text \<open>The pattern \<^verbatim>\<open>\s*/\s*\<close> of the \<open>re.sub\<close> call.\<close>

definition SLASH_REGEX :: regex where
  "SLASH_REGEX = seqs [spaces, lit ''/'', spaces]"

text \<open>
  The label steps of the loop body of \<open>parse_fuel_mix\<close>: \<open>fuel_label\<close> is the label
  text after the lower-casing, the \<open>re.sub\<close> and the two replacements, \<open>fuel_key\<close> the
  result of \<open>LABEL_NORMALIZE.get(label, None)\<close>.
\<close>

definition fuel_label :: "string \<Rightarrow> string" where
  "fuel_label g1 =
     (let label = lower (strip g1);
          label = re_sub False SLASH_REGEX '' '' label;
          label = strip (replace_char (CHR 0xE9) ''e'' (replace_char (CHR 0xF3) ''o'' label))
      in label)"

definition fuel_key :: "string \<Rightarrow> string option" where
  "fuel_key g1 = dict_get LABEL_NORMALIZE (fuel_label g1)"

text \<open>
  The key of a match: the label steps on the text of group 1. Group 1 is the first part
  of \<open>FUEL_REGEX\<close>, so it has a text in every match (lemma \<open>fuel_group1\<close> below).
\<close>

definition match_key :: "rematch \<Rightarrow> string option" where
  "match_key m = (case re_group m 1 of None \<Rightarrow> None | Some g1 \<Rightarrow> fuel_key g1)"

text \<open>The loop body: \<open>if key: out[key] = _to_float(m.group(2))\<close>.\<close>

definition fuel_step :: "(string \<times> pyfloat option) list \<Rightarrow> rematch \<Rightarrow> (string \<times> pyfloat option) list" where
  "fuel_step out m =
     (case match_key m of
        None \<Rightarrow> out
      | Some key \<Rightarrow> if key = [] then out else dict_set out key (to_float (re_group m 2)))"

definition parse_fuel_mix :: "string \<Rightarrow> (string \<times> pyfloat option) list" where
  "parse_fuel_mix page_text =
     (let out = [(''gas_natural'', None), (''carbon'', None), (''bunker_diesel'', None),
                 (''renovables'', None), (''otros'', None)]
      in foldl fuel_step out (finditer True FUEL_REGEX page_text))"


section \<open>The plant reader of \<open>genera_plants_scraper.py\<close>\<close>

text \<open>\<open>MW_RE\<close>, compiled with \<open>re.IGNORECASE\<close>: \<^verbatim>\<open>([\d\.,]+)\s*MW\b\<close>.\<close>

definition MW_RE :: regex where
  "MW_RE = seqs [Grp 1 (plus (Sym [Digit, Lit CHR ''.'', Lit CHR '',''])), spaces, lit ''MW'', WordB]"

text \<open>\<open>_extract_mw_values\<close>: the values of all the matches that normalize.\<close>

definition extract_mw_values :: "string \<Rightarrow> pyfloat list" where
  "extract_mw_values text = List.map_filter (\<lambda>m. to_float_plants (re_group m 1)) (finditer True MW_RE text)"

record unit_reading =
  unidad :: string
  mw :: "pyfloat option"

record plant =
  nombre :: string
  total_MW :: "pyfloat option"
  unidades :: "unit_reading list"

text \<open>
  The body of the loop over the lines in \<open>harvest_for\<close>: the first match of the line,
  and the name guessed from the text before it.
\<close>

definition unit_of_line :: "string \<Rightarrow> string \<Rightarrow> unit_reading option" where
  "unit_of_line title line =
     (case re_search True MW_RE line of
        None \<Rightarrow> None
      | Some m \<Rightarrow>
          (let val = to_float_plants (re_group m 1);
               name_guess = strip (strip_chars (\<lambda>c. c = CHR ''-'')
                              (strip_chars (\<lambda>c. c = CHR '':'') (strip (take (start m) line))));
               name_guess = (if name_guess = [] then title @ '' unidad'' else name_guess)
           in Some \<lparr>unidad = name_guess, mw = val\<rparr>))"

text \<open>
  What the browser gives \<open>harvest_for\<close>: an error of one of the page operations, no card
  for the title, or the text of the opened panel.
\<close>

datatype browser_error = PlaywrightError

datatype panel = NoCard | Detail string

definition harvest_for :: "string \<Rightarrow> browser_error + panel \<Rightarrow> browser_error + plant option" where
  "harvest_for title page =
     (case page of
        Inl e \<Rightarrow> Inl e
      | Inr NoCard \<Rightarrow> Inr None
      | Inr (Detail detail_text) \<Rightarrow>
          (let unit_values = extract_mw_values detail_text;
               total_mw = (if unit_values \<noteq> [] then Some (py_sum unit_values) else None);
               lines = filter (\<lambda>line. strip line \<noteq> []) (splitlines detail_text);
               per_unit = List.map_filter (unit_of_line title) lines
           in Inr (Some \<lparr>nombre = title, total_MW = total_mw, unidades = per_unit\<rparr>)))"

section \<open>The snapshot builder of \<open>genera_scraper.py\<close>\<close>

definition PAGES :: "string list" where
  "PAGES = [''https://genera-pr.com/data-tr'', ''https://genera-pr.com/data-generacion'']"

text \<open>The catalogs: label, unit, key.\<close>

definition DETALLE_LABELS :: "(string \<times> string \<times> string) list" where
  "DETALLE_LABELS =
     [(''Generaci'' @ [CHR 0xF3] @ ''n Total del Sistema'', ''MW'', ''generacion_total_MW''),
      (''Capacidad Disponible'', ''MW'', ''capacidad_disponible_MW''),
      (''Reserva en Rotaci'' @ [CHR 0xF3] @ ''n'', ''MW'', ''reserva_en_rotacion_MW''),
      (''Reserva Operacional'', ''MW'', ''reserva_operacional_MW'')]"

definition PRONOSTICO_LABELS :: "(string \<times> string \<times> string) list" where
  "PRONOSTICO_LABELS =
     [(''Demanda Pr'' @ [CHR 0xF3] @ ''xima Hora'', ''MW'', ''proxima_hora_MW''),
      (''Demanda M'' @ [CHR 0xE1] @ ''xima Registrada Hoy'', ''MW'', ''maxima_hoy_MW'')]"

definition FUEL_LABELS :: "(string \<times> string \<times> string) list" where
  "FUEL_LABELS =
     [(''Gas Natural'', ''%'', ''gas_natural''),
      (''Carb'' @ [CHR 0xF3] @ ''n'', ''%'', ''carbon''),
      (''Bunker/Di'' @ [CHR 0xE9] @ ''sel'', ''%'', ''bunker_diesel''),
      (''Bunker / Di'' @ [CHR 0xE9] @ ''sel'', ''%'', ''bunker_diesel''),
      (''Renovables'', ''%'', ''renovables''),
      (''Otros'', ''%'', ''otros'')]"

definition UPDATED_LABEL :: string where
  "UPDATED_LABEL = ''Actualizado''"

definition keys_of :: "(string \<times> string \<times> string) list \<Rightarrow> string list" where
  "keys_of catalog = map (\<lambda>(label, unit, key). key) catalog"

text \<open>
  The pattern of \<open>_search_number_after_label\<close>, with \<open>re.IGNORECASE\<close>:
  the escaped label, \<^verbatim>\<open>(?:[^\n\r]*?\n|\s+)*?([\d\.,]+)\s*\<close> and the escaped unit.
\<close>

definition label_regex :: "string \<Rightarrow> string \<Rightarrow> regex" where
  "label_regex label unit = seqs
     [lit label,
      Star False (Alt (Seq (Star False (NotSym [Lit (CHR 0x0A), Lit (CHR 0x0D)])) (lit [CHR 0x0A]))
                      (plus (Sym [Space]))),
      Grp 1 (plus (Sym [Digit, Lit CHR ''.'', Lit CHR '',''])),
      spaces, lit unit]"

definition search_number_after_label :: "string \<Rightarrow> string \<Rightarrow> string \<Rightarrow> pyfloat option" where
  "search_number_after_label page_text label unit =
     (case re_search True (label_regex label unit) page_text of
        Some m \<Rightarrow> to_float (re_group m 1)
      | None \<Rightarrow> None)"

text \<open>The pattern of \<open>_search_timestamp\<close>: the label, \<^verbatim>\<open>\s*([^\n\r]+)\<close>.\<close>

definition timestamp_regex :: regex where
  "timestamp_regex = seqs [lit UPDATED_LABEL, spaces, Grp 1 (plus (NotSym [Lit (CHR 0x0A), Lit (CHR 0x0D)]))]"

definition search_timestamp :: "string \<Rightarrow> string option" where
  "search_timestamp page_text =
     (case re_search True timestamp_regex page_text of
        Some m \<Rightarrow> map_option strip (re_group m 1)
      | None \<Rightarrow> None)"

record snapshot =
  scraped_at :: string
  updated_label_raw :: "string option"
  detalles_generacion :: "(string \<times> pyfloat option) list"
  pronostico_demanda :: "(string \<times> pyfloat option) list"
  fuel_mix_pct :: "(string \<times> pyfloat option) list"
  source_pages :: "string list"

text \<open>
  What the browser gives \<open>scrape_once\<close>. A visit of the first loop gives the body text,
  or fails and the body text is read in the handler, or fails there too. \<open>porcentajes\<close>
  is the body text read after the click on "Porcentajes", or the error of that block.
  \<open>fallback\<close> is the page helper of the second pass, or the error of loading it; the
  helper gives, for a label and a unit, the text of the number it found, \<open>None\<close> for the
  \<open>null\<close> of the page, or the error of the evaluation. \<open>now\<close> is the time of the scrape
  in ISO form.
\<close>

datatype page_visit = Loaded string | Recovered string | Unreadable

record scrape_env =
  visit :: "string \<Rightarrow> page_visit"
  porcentajes :: "browser_error + string"
  fallback :: "browser_error + (string \<Rightarrow> string \<Rightarrow> browser_error + string option)"
  now :: string

definition page_text_of :: "page_visit \<Rightarrow> string" where
  "page_text_of v = (case v of Loaded t \<Rightarrow> t | Recovered t \<Rightarrow> t | Unreadable \<Rightarrow> [])"

text \<open>The bucket of a key: the conditional expression of the second pass.\<close>

datatype bucket = Detalles | Pronostico | Fuel

definition bucket_of :: "string \<Rightarrow> bucket" where
  "bucket_of key =
     (if key \<in> set (keys_of DETALLE_LABELS) then Detalles
      else if key \<in> set (keys_of PRONOSTICO_LABELS) then Pronostico
      else Fuel)"

definition bucket_dict :: "snapshot \<Rightarrow> bucket \<Rightarrow> (string \<times> pyfloat option) list" where
  "bucket_dict out b =
     (case b of Detalles \<Rightarrow> detalles_generacion out
              | Pronostico \<Rightarrow> pronostico_demanda out
              | Fuel \<Rightarrow> fuel_mix_pct out)"

definition bucket_store :: "snapshot \<Rightarrow> bucket \<Rightarrow> string \<Rightarrow> pyfloat option \<Rightarrow> snapshot" where
  "bucket_store out b key v =
     (case b of
        Detalles \<Rightarrow> out\<lparr>detalles_generacion := dict_set (detalles_generacion out) key v\<rparr>
      | Pronostico \<Rightarrow> out\<lparr>pronostico_demanda := dict_set (pronostico_demanda out) key v\<rparr>
      | Fuel \<Rightarrow> out\<lparr>fuel_mix_pct := dict_set (fuel_mix_pct out) key v\<rparr>)"

text \<open>\<open>bucket.get(key) is None\<close>: the key is not there, or it is bound to \<open>None\<close>.\<close>

definition is_missing :: "snapshot \<Rightarrow> string \<Rightarrow> bool" where
  "is_missing out key =
     (case dict_get (bucket_dict out (bucket_of key)) key of
        None \<Rightarrow> True
      | Some None \<Rightarrow> True
      | Some (Some v) \<Rightarrow> False)"

text \<open>The body of the loop over \<open>parsed_mix.items()\<close>: only a value that is not \<open>None\<close> is copied.\<close>

definition merge_mix :: "snapshot \<Rightarrow> string \<times> pyfloat option \<Rightarrow> snapshot" where
  "merge_mix out item =
     (case item of (k, v) \<Rightarrow>
        (case v of
           None \<Rightarrow> out
         | Some x \<Rightarrow> out\<lparr>fuel_mix_pct := dict_set (fuel_mix_pct out) k (Some x)\<rparr>))"

text \<open>The first pass: the skeleton and the searches over \<open>merged_text\<close>.\<close>

definition first_pass :: "string \<Rightarrow> string \<Rightarrow> snapshot" where
  "first_pass merged_text scrape_time =
     (let out = \<lparr>scraped_at = scrape_time,
                 updated_label_raw = search_timestamp merged_text,
                 detalles_generacion = [],
                 pronostico_demanda = [],
                 fuel_mix_pct = [],
                 source_pages = PAGES\<rparr>;
          out = foldl (\<lambda>out (label, unit, key).
                    out\<lparr>detalles_generacion :=
                      dict_set (detalles_generacion out) key (search_number_after_label merged_text label unit)\<rparr>)
                  out DETALLE_LABELS;
          out = foldl (\<lambda>out (label, unit, key).
                    out\<lparr>pronostico_demanda :=
                      dict_set (pronostico_demanda out) key (search_number_after_label merged_text label unit)\<rparr>)
                  out PRONOSTICO_LABELS;
          parsed_mix = parse_fuel_mix merged_text;
          out = foldl (\<lambda>out (label, unit, key).
                    out\<lparr>fuel_mix_pct := setdefault (fuel_mix_pct out) key None\<rparr>)
                  out FUEL_LABELS;
          out = foldl merge_mix out parsed_mix
      in out)"

text \<open>
  The body of the loop of the second pass: the helper is evaluated, its error gives
  \<open>val = None\<close>, and the bucket is written only where it still has \<open>None\<close>.
\<close>

definition fallback_step ::
  "(string \<Rightarrow> string \<Rightarrow> browser_error + string option) \<Rightarrow> snapshot \<Rightarrow> string \<times> string \<times> string \<Rightarrow> snapshot" where
  "fallback_step helper out field =
     (case field of (label, unit, key) \<Rightarrow>
        (let val = (case helper label unit of
                      Inl e \<Rightarrow> None
                    | Inr val_str \<Rightarrow> to_float val_str)
         in if is_missing out key \<and> val \<noteq> None then bucket_store out (bucket_of key) key val
            else out))"

definition second_pass :: "scrape_env \<Rightarrow> snapshot \<Rightarrow> snapshot" where
  "second_pass env out =
     (let missing = filter (\<lambda>(label, unit, key). is_missing out key)
                      (DETALLE_LABELS @ PRONOSTICO_LABELS @ FUEL_LABELS)
      in if missing \<noteq> [] then
           (case fallback env of
              Inl e \<Rightarrow> out
            | Inr helper \<Rightarrow> foldl (fallback_step helper) out missing)
         else out)"


text \<open>The join of the texts of the first loop of \<open>scrape_once\<close>.\<close>

definition joined_text :: "scrape_env \<Rightarrow> string" where
  "joined_text env = join [CHR 0x0A] (map (\<lambda>url. page_text_of (visit env url)) PAGES)"

text \<open>
  \<open>scrape_once\<close>. The three assignments to \<open>merged_text\<close> are kept in the order of the
  source: the join of the page texts, the text with the "Porcentajes" view appended (left
  as it is when that block fails), and the join of the page texts again.
\<close>

definition scrape_once :: "scrape_env \<Rightarrow> snapshot" where
  "scrape_once env =
     (let page_texts = map (\<lambda>url. page_text_of (visit env url)) PAGES;
          merged_text = join [CHR 0x0A] page_texts;
          merged_text = (case porcentajes env of
                           Inr porcentajes_text \<Rightarrow> merged_text @ [CHR 0x0A] @ porcentajes_text
                         | Inl e \<Rightarrow> merged_text);
          merged_text = join [CHR 0x0A] page_texts;
          out = first_pass merged_text (now env)
      in second_pass env out)"





section \<open>The page helper of \<open>genera_scraper.py\<close>\<close>















section \<open>The ingestion sink of \<open>pr_grid_logger.py\<close>\<close>

text \<open>
  The Python values that \<open>json.loads\<close> returns and that a row holds.
\<close>

datatype pyval =
    PNone
  | PBool bool
  | PInt int
  | PFloat pyfloat
  | PStr string
  | PList "pyval list"
  | PDict "(string \<times> pyval) list"

datatype exn =
  AttributeError | TypeError | FloatValueError | OverflowError | SqliteBindError | SqliteIntegrityError

text \<open>
  A row, the list that \<open>parse_row\<close> builds: its first element, the key, which is always
  a string, and the thirteen other elements.
\<close>

type_synonym row = "string \<times> pyval list"

text \<open>
  Two library calls are parameters of the model: \<open>isoformat_of\<close> is
  \<open>datetime.fromisoformat(s).isoformat()\<close> on a string (\<open>None\<close> when \<open>fromisoformat\<close>
  raises), and \<open>str_of\<close> is \<open>str(x)\<close> on a value that is neither a string nor \<open>None\<close>.
\<close>

record pylib =
  isoformat_of :: "string \<Rightarrow> string option"
  str_of :: "pyval \<Rightarrow> string"

definition COLUMNS :: "string list" where
  "COLUMNS =
     [''scraped_at_iso'', ''updated_label_raw'', ''generacion_total_MW'',
      ''capacidad_disponible_MW'', ''reserva_en_rotacion_MW'', ''reserva_operacional_MW'',
      ''demanda_proxima_hora_MW'', ''demanda_maxima_hoy_MW'', ''gas_natural_pct'',
      ''carbon_pct'', ''bunker_diesel_pct'', ''renovables_pct'', ''otros_pct'', ''source_pages'']"

text \<open>The truth value of a Python value, as \<open>or\<close> tests it.\<close>

fun truthy :: "pyval \<Rightarrow> bool" where
  "truthy PNone = False"
| "truthy (PBool b) = b"
| "truthy (PInt i) = (i \<noteq> 0)"
| "truthy (PFloat f) = (f \<noteq> Fin 0)"
| "truthy (PStr s) = (s \<noteq> [])"
| "truthy (PList xs) = (xs \<noteq> [])"
| "truthy (PDict d) = (d \<noteq> [])"

text \<open>\<open>payload.get(name, {}) or {}\<close>.\<close>

definition group_of :: "(string \<times> pyval) list \<Rightarrow> string \<Rightarrow> pyval" where
  "group_of payload name =
     (case dict_get payload name of
        None \<Rightarrow> PDict []
      | Some v \<Rightarrow> if truthy v then v else PDict [])"

text \<open>\<open>g.get(key)\<close>: only a \<open>dict\<close> has the method.\<close>

definition get_field :: "pyval \<Rightarrow> string \<Rightarrow> exn + pyval" where
  "get_field g key =
     (case g of
        PDict d \<Rightarrow> Inr (case dict_get d key of None \<Rightarrow> PNone | Some v \<Rightarrow> v)
      | _ \<Rightarrow> Inl AttributeError)"

text \<open>
  \<open>num\<close>: \<open>float(x) if x is not None else None\<close>. \<open>float\<close> of an integer that rounds
  beyond the largest binary64 number raises \<open>OverflowError\<close>.
\<close>

definition num :: "pyval \<Rightarrow> exn + pyval" where
  "num x =
     (case x of
        PNone \<Rightarrow> Inr PNone
      | PBool b \<Rightarrow> Inr (PFloat (Fin (if b then 1 else 0)))
      | PInt i \<Rightarrow> if \<bar>i\<bar> < 2 ^ 1024 - 2 ^ 970 then Inr (PFloat (Fin (real_of_int i))) else Inl OverflowError
      | PFloat f \<Rightarrow> Inr (PFloat f)
      | PStr s \<Rightarrow> (case py_float s of Inl ValueError \<Rightarrow> Inl FloatValueError | Inr f \<Rightarrow> Inr (PFloat f))
      | PList xs \<Rightarrow> Inl TypeError
      | PDict d \<Rightarrow> Inl TypeError)"

definition try_bind :: "exn + 'a \<Rightarrow> ('a \<Rightarrow> exn + 'b) \<Rightarrow> exn + 'b" where
  "try_bind r f = (case r of Inl e \<Rightarrow> Inl e | Inr v \<Rightarrow> f v)"

text \<open>The elements of a list display are evaluated from left to right; the first error ends it.\<close>

fun try_all :: "(exn + 'a) list \<Rightarrow> exn + 'a list" where
  "try_all [] = Inr []"
| "try_all (r # rs) = try_bind r (\<lambda>v. try_bind (try_all rs) (\<lambda>vs. Inr (v # vs)))"

fun str_items :: "pyval list \<Rightarrow> exn + string list" where
  "str_items [] = Inr []"
| "str_items (PStr s # xs) = try_bind (str_items xs) (\<lambda>ss. Inr (s # ss))"
| "str_items (_ # xs) = Inl TypeError"

text \<open>
  \<open>",".join(payload.get("source_pages", []) or [])\<close>: a list of strings is joined, a
  string is joined character by character, a dictionary by its keys.
\<close>

definition joined_pages :: "(string \<times> pyval) list \<Rightarrow> exn + string" where
  "joined_pages payload =
     (case dict_get payload ''source_pages'' of
        None \<Rightarrow> Inr []
      | Some v \<Rightarrow>
          if \<not> truthy v then Inr []
          else (case v of
                  PList xs \<Rightarrow> try_bind (str_items xs) (\<lambda>ss. Inr (join '','' ss))
                | PStr s \<Rightarrow> Inr (join '','' (map (\<lambda>c. [c]) s))
                | PDict d \<Rightarrow> Inr (join '','' (dict_keys d))
                | _ \<Rightarrow> Inl TypeError))"

text \<open>The \<open>try\<close> block of \<open>parse_row\<close> and its handler.\<close>

definition scraped_at_iso_of :: "pylib \<Rightarrow> pyval option \<Rightarrow> string" where
  "scraped_at_iso_of lib scraped =
     (case scraped of
        None \<Rightarrow> []
      | Some PNone \<Rightarrow> []
      | Some (PStr s) \<Rightarrow> (case isoformat_of lib s of Some normal \<Rightarrow> normal | None \<Rightarrow> s)
      | Some v \<Rightarrow> str_of lib v)"

definition parse_row :: "pylib \<Rightarrow> pyval \<Rightarrow> exn + row" where
  "parse_row lib payload =
     (case payload of
        PDict p \<Rightarrow>
          (let scraped_at_iso = scraped_at_iso_of lib (dict_get p ''scraped_at'');
               updated = (case dict_get p ''updated_label_raw'' of None \<Rightarrow> PStr [] | Some v \<Rightarrow> v);
               dg = group_of p ''detalles_generacion'';
               pd = group_of p ''pronostico_demanda'';
               fx = group_of p ''fuel_mix_pct''
           in try_bind
                (try_all (map (\<lambda>(g, key). try_bind (get_field g key) num)
                   [(dg, ''generacion_total_MW''), (dg, ''capacidad_disponible_MW''),
                    (dg, ''reserva_en_rotacion_MW''), (dg, ''reserva_operacional_MW''),
                    (pd, ''proxima_hora_MW''), (pd, ''maxima_hoy_MW''),
                    (fx, ''gas_natural''), (fx, ''carbon''), (fx, ''bunker_diesel''),
                    (fx, ''renovables''), (fx, ''otros'')]))
                (\<lambda>nums. try_bind (joined_pages p)
                   (\<lambda>pages. Inr (scraped_at_iso, [updated] @ nums @ [PStr pages]))))
      | _ \<Rightarrow> Inl AttributeError)"

text \<open>
  The values of SQLite, and the binding of a Python value to a parameter: a list or a
  dictionary is not supported, an integer must fit 64 bits, a NaN is stored as NULL.
\<close>

datatype sqlval = SqlNull | SqlInt int | SqlReal pyfloat | SqlText string

definition bind_value :: "pyval \<Rightarrow> exn + sqlval" where
  "bind_value v =
     (case v of
        PNone \<Rightarrow> Inr SqlNull
      | PBool b \<Rightarrow> Inr (SqlInt (if b then 1 else 0))
      | PInt i \<Rightarrow> if - (2 ^ 63) \<le> i \<and> i < 2 ^ 63 then Inr (SqlInt i) else Inl OverflowError
      | PFloat f \<Rightarrow> Inr (if f = NaN then SqlNull else SqlReal f)
      | PStr s \<Rightarrow> Inr (SqlText s)
      | PList xs \<Rightarrow> Inl SqliteBindError
      | PDict d \<Rightarrow> Inl SqliteBindError)"

text \<open>The statement has fourteen placeholders: the key and thirteen more.\<close>

definition bind_row :: "row \<Rightarrow> exn + string \<times> sqlval list" where
  "bind_row r =
     (if length (snd r) \<noteq> 13 then Inl SqliteBindError
      else try_bind (try_all (map bind_value (snd r))) (\<lambda>vs. Inr (fst r, vs)))"

text \<open>
  The files and the streams. The snapshot file is described by what reading and parsing
  it gives: the message of the exception, or the parsed value; \<open>None\<close> is a file that does
  not exist. The CSV file is its list of rows and the table \<open>readings\<close> its list of rows,
  each with its key in front; \<open>None\<close> is a file or a table that does not exist yet. The
  table holds the values as they were bound.
\<close>

datatype message = Warn_not_found | Error_parse string | Ok_ingested string

record world =
  json_file :: "(string + pyval) option"
  csv_file :: "pyval list list option"
  readings :: "(string \<times> sqlval list) list option"
  stdout :: "message list"
  stderr :: "message list"

definition ensure_csv :: "world \<Rightarrow> world" where
  "ensure_csv w =
     (case csv_file w of
        None \<Rightarrow> w\<lparr>csv_file := Some [map PStr COLUMNS]\<rparr>
      | Some rows \<Rightarrow> w)"

definition write_csv :: "row \<Rightarrow> world \<Rightarrow> world" where
  "write_csv r w =
     (let w = ensure_csv w
      in w\<lparr>csv_file := map_option (\<lambda>rows. rows @ [PStr (fst r) # snd r]) (csv_file w)\<rparr>)"

text \<open>\<open>CREATE TABLE IF NOT EXISTS readings\<close>.\<close>

definition ensure_sqlite :: "world \<Rightarrow> world" where
  "ensure_sqlite w =
     (case readings w of
        None \<Rightarrow> w\<lparr>readings := Some []\<rparr>
      | Some rows \<Rightarrow> w)"

text \<open>
  An \<open>INSERT\<close> into a table whose first column is the primary key. A row whose key is in
  the table violates the constraint: the plain statement fails, \<open>OR IGNORE\<close> skips the row.
\<close>

datatype conflict = Abort | Ignore

definition sql_insert ::
  "conflict \<Rightarrow> (string \<times> sqlval list) list \<Rightarrow> string \<times> sqlval list \<Rightarrow> exn + (string \<times> sqlval list) list" where
  "sql_insert mode table r =
     (if fst r \<in> set (map fst table) then
        (case mode of Abort \<Rightarrow> Inl SqliteIntegrityError | Ignore \<Rightarrow> Inr table)
      else Inr (table @ [r]))"

text \<open>
  \<open>write_sqlite\<close>: the table is created if needed, the row is bound and inserted with
  \<open>INSERT OR IGNORE\<close>. The result is the exception that leaves the function, if any, and
  the world after it.
\<close>

definition write_sqlite :: "row \<Rightarrow> world \<Rightarrow> exn option \<times> world" where
  "write_sqlite r w =
     (let w = ensure_sqlite w
      in (case bind_row r of
            Inl e \<Rightarrow> (Some e, w)
          | Inr b \<Rightarrow>
              (case sql_insert Ignore (case readings w of None \<Rightarrow> [] | Some t \<Rightarrow> t) b of
                 Inl e \<Rightarrow> (Some e, w)
               | Inr table \<Rightarrow> (None, w\<lparr>readings := Some table\<rparr>))))"

definition process_once :: "pylib \<Rightarrow> bool \<Rightarrow> world \<Rightarrow> exn option \<times> world" where
  "process_once lib verbose w =
     (case json_file w of
        None \<Rightarrow> (None, if verbose then w\<lparr>stdout := stdout w @ [Warn_not_found]\<rparr> else w)
      | Some (Inl e) \<Rightarrow> (None, w\<lparr>stderr := stderr w @ [Error_parse e]\<rparr>)
      | Some (Inr payload) \<Rightarrow>
          (case parse_row lib payload of
             Inl x \<Rightarrow> (Some x, w)
           | Inr row \<Rightarrow>
               (case write_sqlite row w of
                  (Some x, w1) \<Rightarrow> (Some x, w1)
                | (None, w1) \<Rightarrow>
                    (let w2 = write_csv row w1
                     in (None, if verbose then w2\<lparr>stdout := stdout w2 @ [Ok_ingested (fst row)]\<rparr> else w2)))))"

text \<open>The rows of the table and of the CSV file; the first row of the file is its header.\<close>

definition table_of :: "world \<Rightarrow> (string \<times> sqlval list) list" where
  "table_of w = (case readings w of None \<Rightarrow> [] | Some t \<Rightarrow> t)"

definition csv_rows :: "world \<Rightarrow> pyval list list" where
  "csv_rows w = (case csv_file w of None \<Rightarrow> [] | Some rows \<Rightarrow> rows)"

definition store_row_count :: "world \<Rightarrow> nat" where
  "store_row_count w = length (table_of w)"

definition log_row_count :: "world \<Rightarrow> nat" where
  "log_row_count w = length (csv_rows w) - 1"

text \<open>
  A library for the concrete runs below: it reads the timestamps that \<open>scrape_once\<close>
  writes, four digits of year, two of month and day, \<open>T\<close>, the time with seconds and a
  numeric offset, and gives them back as they are; \<open>str_of\<close> is not called in these runs.
\<close>

definition scraper_timestamp :: "string \<Rightarrow> bool" where
  "scraper_timestamp s =
     (length s = 25 \<and>
      list_all is_decimal (take 4 s @ take 2 (drop 5 s) @ take 2 (drop 8 s) @ take 2 (drop 11 s) @
                           take 2 (drop 14 s) @ take 2 (drop 17 s) @ take 2 (drop 20 s) @ take 2 (drop 23 s)) \<and>
      [s ! 4, s ! 7, s ! 10, s ! 13, s ! 16, s ! 22] = ''--T:::'' \<and> s ! 19 \<in> set ''+-'')"

definition run_isoformat :: "string \<Rightarrow> string option" where
  "run_isoformat s = (if scraper_timestamp s then Some s else None)"

definition run_str :: "pyval \<Rightarrow> string" where
  "run_str v = []"

definition run_lib :: pylib where
  "run_lib = \<lparr>isoformat_of = run_isoformat, str_of = run_str\<rparr>"

text \<open>A snapshot with the time of scenario 4, and a world with no table and no CSV file yet.\<close>

definition scenario_payload :: pyval where
  "scenario_payload = PDict
     [(''scraped_at'', PStr ''2025-10-20T23:31:15-04:00''),
      (''updated_label_raw'', PStr ''10/20/2025 1:06:02 PM''),
      (''detalles_generacion'', PDict [(''generacion_total_MW'', PFloat (Fin 2129))]),
      (''pronostico_demanda'', PDict []),
      (''fuel_mix_pct'', PDict [(''bunker_diesel'', PFloat (Fin 18.5)), (''otros'', PNone)]),
      (''source_pages'', PList [PStr ''https://genera-pr.com/data-tr''])]"

definition scenario_world :: world where
  "scenario_world =
     \<lparr>json_file = Some (Inr scenario_payload), csv_file = None, readings = None,
      stdout = [], stderr = []\<rparr>"

definition scenario_row :: row where
  "scenario_row =
     (''2025-10-20T23:31:15-04:00'',
      [PStr ''10/20/2025 1:06:02 PM'', PFloat (Fin 2129), PNone, PNone, PNone, PNone, PNone,
       PNone, PNone, PFloat (Fin 18.5), PNone, PNone, PStr ''https://genera-pr.com/data-tr''])"

definition scenario_bound :: "string \<times> sqlval list" where
  "scenario_bound =
     (''2025-10-20T23:31:15-04:00'',
      [SqlText ''10/20/2025 1:06:02 PM'', SqlReal (Fin 2129), SqlNull, SqlNull, SqlNull, SqlNull,
       SqlNull, SqlNull, SqlNull, SqlReal (Fin 18.5), SqlNull, SqlNull,
       SqlText ''https://genera-pr.com/data-tr''])"

text \<open>
  The snapshot of the scenario with a list as \<open>updated_label_raw\<close>, and the row that
  \<open>parse_row\<close> builds from it.
\<close>

definition relabelled_payload :: pyval where
  "relabelled_payload = PDict
     [(''scraped_at'', PStr ''2025-10-20T23:31:15-04:00''),
      (''updated_label_raw'', PList [PStr ''10/20/2025 1:06:02 PM'']),
      (''detalles_generacion'', PDict [(''generacion_total_MW'', PFloat (Fin 2129))]),
      (''pronostico_demanda'', PDict []),
      (''fuel_mix_pct'', PDict [(''bunker_diesel'', PFloat (Fin 18.5)), (''otros'', PNone)]),
      (''source_pages'', PList [PStr ''https://genera-pr.com/data-tr''])]"

definition relabelled_row :: row where
  "relabelled_row =
     (''2025-10-20T23:31:15-04:00'',
      [PList [PStr ''10/20/2025 1:06:02 PM''], PFloat (Fin 2129), PNone, PNone, PNone, PNone, PNone,
       PNone, PNone, PFloat (Fin 18.5), PNone, PNone, PStr ''https://genera-pr.com/data-tr''])"

section \<open>Evaluation rules\<close>

lemmas char_class_defs =
  code_point_def is_space_def is_decimal_def is_upper_def is_word_def is_linebreak_def

lemmas float_defs =
  py_float_def float_strip_def strip_chars_def split_sign_def lower_def parse_decimal_def
  parse_exponent_def scale10_def digits_value_def digit_value_def

lemmas to_float_defs =
  to_float_def to_float_plants_def normalize_separators_def strip_def replace_char_def

lemmas regex_defs =
  finditer_def match_at_def step_char_def lit_def seqs_def plus_def opt_def spaces_def
  word_before_def word_after_def re_group_def re_sub_def re_search_def

lemmas dict_defs = dict_get_def dict_keys_def setdefault_def


lemmas plant_defs =
  harvest_for_def extract_mw_values_def unit_of_line_def MW_RE_def py_sum_def splitlines_def
  List.map_filter_def

lemmas ingest_defs =
  process_once_def parse_row_def write_sqlite_def write_csv_def ensure_csv_def ensure_sqlite_def
  bind_row_def bind_value_def sql_insert_def try_bind_def scraped_at_iso_of_def group_of_def
  get_field_def num_def joined_pages_def table_of_def csv_rows_def store_row_count_def
  log_row_count_def COLUMNS_def

lemmas run_defs =
  run_lib_def run_isoformat_def scraper_timestamp_def run_str_def scenario_payload_def
  scenario_world_def scenario_row_def scenario_bound_def


section \<open>Properties of the numeric normalizer\<close>

lemma to_float_plants_eq: "to_float_plants x = to_float x"
  by (simp add: to_float_def to_float_plants_def normalize_separators_def Let_def
      split: option.splits sum.splits float_error.splits)

lemma to_float_None_iff:
  "to_float (Some s) = None \<longleftrightarrow> s = [] \<or> py_float (normalize_separators (strip s)) = Inl ValueError"
  by (simp add: to_float_def split: sum.splits float_error.splits)

text \<open>
  C2. The normalizer on the three locale-formatted examples. \<open>"1,234.56"\<close> gives 1234.56
  and \<open>"2129"\<close> gives 2129.0. On \<open>"1.234,56"\<close> both separators are present, so the
  commas are deleted and \<open>float("1.23456")\<close> is returned: 1.23456, not the 1234.56 that
  the comment of \<open>_to_float\<close> ("Accept 1,234.56 or 1.234,56") announces.
\<close>

theorem to_float_locale_examples:
  "to_float (Some ''1,234.56'') = Some (Fin 1234.56) \<and>
   to_float (Some ''1.234,56'') = Some (Fin 1.23456) \<and>
   to_float (Some ''1.234,56'') \<noteq> Some (Fin 1234.56) \<and>
   to_float (Some ''2129'') = Some (Fin 2129)"
  by (simp add: to_float_defs float_defs char_class_defs)

text \<open>
  C9. Both versions of \<open>_to_float\<close> return a value on every input, a string or \<open>None\<close>:
  \<open>None\<close> and the empty string give \<open>None\<close>; a string whose rewritten form \<open>float\<close>
  rejects gives \<open>None\<close>, the \<open>ValueError\<close> being caught; every other string gives the
  float that \<open>float\<close> returns.
\<close>

theorem to_float_never_raises:
  "to_float None = None \<and> to_float (Some []) = None \<and>
   to_float_plants None = None \<and> to_float_plants (Some []) = None \<and>
   (py_float (normalize_separators (strip s)) = Inl ValueError \<longrightarrow>
      to_float (Some s) = None \<and> to_float_plants (Some s) = None) \<and>
   (to_float (Some s) = None \<or> (\<exists>v. to_float (Some s) = Some v \<and> py_float (normalize_separators (strip s)) = Inr v)) \<and>
   to_float_plants (Some s) = to_float (Some s)"
  by (auto simp add: to_float_plants_eq to_float_def split: sum.splits float_error.splits)

theorem to_float_never_raises_witness:
  "py_float (normalize_separators (strip ''abc'')) = Inl ValueError \<and>
   to_float (Some ''abc'') = None \<and> to_float_plants (Some ''abc'') = None"
proof -
  have h: "py_float (normalize_separators (strip ''abc'')) = Inl ValueError"
    by (simp add: to_float_defs float_defs char_class_defs)
  from to_float_never_raises [of "''abc''"] h show ?thesis
    by simp
qed

section \<open>Properties of the label matcher\<close>














section \<open>Properties of the plant reader\<close>

text \<open>The first match of \<open>finditer\<close> is the match of \<open>re.search\<close>.\<close>

lemma finditer_at_search_None:
  "search_at ic r pos pc s = None \<Longrightarrow> finditer_at ic r 0 pos pc s = []"
proof (induction s arbitrary: pos pc)
  case Nil
  then show ?case by simp
next
  case (Cons c cs)
  from Cons.prems have n: "match_at ic r pos pc (c # cs) = None"
    by (simp split: option.splits)
  with Cons.prems have "search_at ic r (Suc pos) (Some c) cs = None" by simp
  from Cons.IH [OF this] n show ?case by simp
qed

lemma finditer_at_search_Some:
  "search_at ic r pos pc s = Some m \<Longrightarrow> \<exists>later. finditer_at ic r 0 pos pc s = m # later"
proof (induction s arbitrary: pos pc)
  case Nil
  then show ?case by simp
next
  case (Cons c cs)
  show ?case
  proof (cases "match_at ic r pos pc (c # cs)")
    case None
    with Cons.prems have "search_at ic r (Suc pos) (Some c) cs = Some m" by simp
    from Cons.IH [OF this] None show ?thesis by simp
  next
    case (Some m')
    with Cons.prems have "m' = m" by simp
    with Some show ?thesis by simp
  qed
qed

lemma finditer_head:
  "finditer ic r s = (case re_search ic r s of None \<Rightarrow> [] | Some m \<Rightarrow> m # tl (finditer ic r s))"
proof (cases "re_search ic r s")
  case None
  then show ?thesis
    using finditer_at_search_None [of ic r 0 None s] by (simp add: finditer_def re_search_def)
next
  case (Some m)
  then show ?thesis
    using finditer_at_search_Some [of ic r 0 None s m] by (auto simp: finditer_def re_search_def)
qed

lemma unit_of_line_first:
  "map mw (List.map_filter (unit_of_line title) [t]) =
     (case finditer True MW_RE t of [] \<Rightarrow> [] | m # later \<Rightarrow> [to_float_plants (re_group m 1)])"
proof (cases "re_search True MW_RE t")
  case None
  with finditer_head [of True MW_RE t] show ?thesis
    by (simp add: unit_of_line_def List.map_filter_def)
next
  case (Some m)
  with finditer_head [of True MW_RE t] have "finditer True MW_RE t = m # tl (finditer True MW_RE t)"
    by simp
  then obtain later where "finditer True MW_RE t = m # later" ..
  with Some show ?thesis
    by (simp add: unit_of_line_def List.map_filter_def Let_def)
qed

lemma extract_mw_values_Nil:
  "extract_mw_values t = [] \<longleftrightarrow> (\<forall>m\<in>set (finditer True MW_RE t). to_float_plants (re_group m 1) = None)"
  by (auto simp: extract_mw_values_def List.map_filter_def filter_empty_conv)

lemma two_values_line:
  "finditer True MW_RE ''A 1 MW B 2 MW'' =
     [\<lparr>start = 2, matched = ''1 MW'', groups = [(1, ''1'')]\<rparr>,
      \<lparr>start = 9, matched = ''2 MW'', groups = [(1, ''2'')]\<rparr>]"
  by (simp add: MW_RE_def regex_defs char_class_defs)

lemma two_values_lines:
  "filter (\<lambda>line. strip line \<noteq> []) (splitlines ''A 1 MW B 2 MW'') = [''A 1 MW B 2 MW'']"
  by (simp add: splitlines_def to_float_defs float_defs char_class_defs)

text \<open>
  C7, as amended. For every panel text, \<open>harvest_for\<close> returns \<open>total_MW\<close> as the sum
  of the values of all the MW matches of the whole text that normalize, and \<open>None\<close>
  exactly when no match of the text normalizes. The list \<open>unidades\<close> is built apart from
  it, from the first match of each line that is not blank and has a match; for a text of
  one line it holds the value of the first match only, whatever the later matches add to
  the total. The text of scenario 3 gives the two units with 250.0 and 230.5 and the
  total 480.5.
\<close>

theorem harvest_total:
  "(\<exists>p. harvest_for title (Inr (Detail t)) = Inr (Some p) \<and>
        nombre p = title \<and>
        total_MW p = (if extract_mw_values t = [] then None else Some (py_sum (extract_mw_values t))) \<and>
        (total_MW p = None \<longleftrightarrow>
           (\<forall>m\<in>set (finditer True MW_RE t). to_float_plants (re_group m 1) = None)) \<and>
        unidades p = List.map_filter (unit_of_line title)
                       (filter (\<lambda>line. strip line \<noteq> []) (splitlines t)) \<and>
        (filter (\<lambda>line. strip line \<noteq> []) (splitlines t) = [t] \<longrightarrow>
           map mw (unidades p) =
             (case finditer True MW_RE t of [] \<Rightarrow> [] | m # later \<Rightarrow> [to_float_plants (re_group m 1)]))) \<and>
   harvest_for title (Inr (Detail (''Unidad 1: 250 MW'' @ [CHR 0x0A] @ ''Unidad 2: 230,5 MW''))) =
     Inr (Some \<lparr>nombre = title, total_MW = Some (Fin 480.5),
                 unidades = [\<lparr>unidad = ''Unidad 1'', mw = Some (Fin 250)\<rparr>,
                             \<lparr>unidad = ''Unidad 2'', mw = Some (Fin 230.5)\<rparr>]\<rparr>)"
proof -
  let ?p = "\<lparr>nombre = title,
             total_MW = (if extract_mw_values t = [] then None
                         else Some (py_sum (extract_mw_values t))),
             unidades = List.map_filter (unit_of_line title)
                          (filter (\<lambda>line. strip line \<noteq> []) (splitlines t))\<rparr>"
  have a: "harvest_for title (Inr (Detail t)) = Inr (Some ?p)"
    by (simp add: harvest_for_def Let_def)
  have n: "total_MW ?p = None \<longleftrightarrow>
           (\<forall>m\<in>set (finditer True MW_RE t). to_float_plants (re_group m 1) = None)"
    using extract_mw_values_Nil [of t] by simp
  have u: "filter (\<lambda>line. strip line \<noteq> []) (splitlines t) = [t] \<longrightarrow>
           map mw (unidades ?p) =
             (case finditer True MW_RE t of [] \<Rightarrow> [] | m # later \<Rightarrow> [to_float_plants (re_group m 1)])"
    using unit_of_line_first [of title t] by simp
  have b: "harvest_for title (Inr (Detail (''Unidad 1: 250 MW'' @ [CHR 0x0A] @ ''Unidad 2: 230,5 MW''))) =
     Inr (Some \<lparr>nombre = title, total_MW = Some (Fin 480.5),
                 unidades = [\<lparr>unidad = ''Unidad 1'', mw = Some (Fin 250)\<rparr>,
                             \<lparr>unidad = ''Unidad 2'', mw = Some (Fin 230.5)\<rparr>]\<rparr>)"
    by (simp add: plant_defs regex_defs to_float_defs float_defs char_class_defs)
  have "\<exists>p. harvest_for title (Inr (Detail t)) = Inr (Some p) \<and>
        nombre p = title \<and>
        total_MW p = (if extract_mw_values t = [] then None else Some (py_sum (extract_mw_values t))) \<and>
        (total_MW p = None \<longleftrightarrow>
           (\<forall>m\<in>set (finditer True MW_RE t). to_float_plants (re_group m 1) = None)) \<and>
        unidades p = List.map_filter (unit_of_line title)
                       (filter (\<lambda>line. strip line \<noteq> []) (splitlines t)) \<and>
        (filter (\<lambda>line. strip line \<noteq> []) (splitlines t) = [t] \<longrightarrow>
           map mw (unidades p) =
             (case finditer True MW_RE t of [] \<Rightarrow> [] | m # later \<Rightarrow> [to_float_plants (re_group m 1)]))"
    apply (rule exI [of _ ?p])
    using a n u by simp
  then show ?thesis using b by (rule conjI)
qed

theorem harvest_total_witness:
  "filter (\<lambda>line. strip line \<noteq> []) (splitlines ''A 1 MW B 2 MW'') = [''A 1 MW B 2 MW''] \<and>
   (\<exists>p. harvest_for ''X'' (Inr (Detail ''A 1 MW B 2 MW'')) = Inr (Some p) \<and>
        total_MW p \<noteq> None \<and> map mw (unidades p) = [Some (Fin 1)])"
proof -
  have v: "to_float_plants (Some ''1'') = Some (Fin 1)" "to_float_plants (Some ''2'') = Some (Fin 2)"
    by (simp_all add: to_float_defs float_defs char_class_defs)
  from harvest_total [of "''X''" "''A 1 MW B 2 MW''", THEN conjunct1] obtain p
    where p: "harvest_for ''X'' (Inr (Detail ''A 1 MW B 2 MW'')) = Inr (Some p)"
      and n: "total_MW p = None \<longleftrightarrow>
           (\<forall>m\<in>set (finditer True MW_RE ''A 1 MW B 2 MW''). to_float_plants (re_group m 1) = None)"
      and u: "filter (\<lambda>line. strip line \<noteq> []) (splitlines ''A 1 MW B 2 MW'') = [''A 1 MW B 2 MW''] \<longrightarrow>
           map mw (unidades p) =
             (case finditer True MW_RE ''A 1 MW B 2 MW'' of [] \<Rightarrow> []
              | m # later \<Rightarrow> [to_float_plants (re_group m 1)])"
    by (elim exE conjE)
  from n have t: "total_MW p \<noteq> None"
    unfolding two_values_line by (simp add: re_group_def v)
  from u two_values_lines have "map mw (unidades p) = [Some (Fin 1)]"
    unfolding two_values_line by (simp add: re_group_def v)
  with p t have "harvest_for ''X'' (Inr (Detail ''A 1 MW B 2 MW'')) = Inr (Some p) \<and>
        total_MW p \<noteq> None \<and> map mw (unidades p) = [Some (Fin 1)]"
    by simp
  then have "\<exists>p. harvest_for ''X'' (Inr (Detail ''A 1 MW B 2 MW'')) = Inr (Some p) \<and>
        total_MW p \<noteq> None \<and> map mw (unidades p) = [Some (Fin 1)]"
    by (rule exI)
  with two_values_lines show ?thesis by (rule conjI)
qed

text \<open>
  The sentence of C7 on the sum of the units, at two texts: a line with two values gives
  the total 3.0 and one unit with 1.0, and a value whose unit is on the next line gives
  the total 5.0 and no unit.
\<close>

theorem harvest_total_counterexample:
  "harvest_for ''X'' (Inr (Detail ''A 1 MW B 2 MW'')) =
     Inr (Some \<lparr>nombre = ''X'', total_MW = Some (Fin 3),
                 unidades = [\<lparr>unidad = ''A'', mw = Some (Fin 1)\<rparr>]\<rparr>) \<and>
   Some (Fin 3) \<noteq> Some (py_sum (List.map_filter mw [\<lparr>unidad = ''A'', mw = Some (Fin 1)\<rparr>])) \<and>
   harvest_for ''X'' (Inr (Detail (''5'' @ [CHR 0x0A] @ ''MW''))) =
     Inr (Some \<lparr>nombre = ''X'', total_MW = Some (Fin 5), unidades = []\<rparr>)"
  by (simp add: plant_defs regex_defs to_float_defs float_defs char_class_defs)

section \<open>Properties of the ingestion sink\<close>

lemma parse_scenario: "parse_row run_lib scenario_payload = Inr scenario_row"
  by (simp add: ingest_defs run_defs dict_defs char_class_defs)

lemma bind_scenario: "bind_row scenario_row = Inr scenario_bound"
  by (simp add: ingest_defs run_defs)

lemma first_ingest:
  "snd (process_once run_lib False scenario_world) =
     scenario_world\<lparr>readings := Some [scenario_bound],
                    csv_file := Some [map PStr COLUMNS, PStr (fst scenario_row) # snd scenario_row]\<rparr>"
  by (simp add: process_once_def parse_scenario write_sqlite_def bind_scenario ensure_sqlite_def
      sql_insert_def write_csv_def ensure_csv_def scenario_world_def)

lemma bind_row_key: "bind_row r = Inr b \<Longrightarrow> fst b = fst r"
  by (auto simp: bind_row_def try_bind_def split: if_splits sum.splits)

text \<open>
  C8. A snapshot file that cannot be read or parsed is reported on the error stream and
  nothing else changes: no row is written to the table or to the CSV file, and no
  exception leaves \<open>process_once\<close>. A file that does not exist changes nothing but the
  warning printed under \<open>verbose\<close>, and raises nothing.
\<close>

theorem process_once_rejects:
  "process_once lib verbose (w\<lparr>json_file := Some (Inl e)\<rparr>) =
     (None, w\<lparr>json_file := Some (Inl e), stderr := stderr w @ [Error_parse e]\<rparr>) \<and>
   process_once lib verbose (w\<lparr>json_file := None\<rparr>) =
     (None, if verbose then w\<lparr>json_file := None, stdout := stdout w @ [Warn_not_found]\<rparr>
            else w\<lparr>json_file := None\<rparr>)"
  by (simp add: process_once_def)

lemma bind_relabelled: "bind_row relabelled_row = Inl SqliteBindError"
  by (simp add: relabelled_row_def bind_row_def bind_value_def try_bind_def)

text \<open>
  C4, as amended. For every row whose key is already in \<open>readings\<close>: when SQLite can bind
  the row (thirteen values besides the key, none of them a list or a dictionary, every
  integer within 64 bits), \<open>write_sqlite\<close> raises nothing and leaves the world as it is,
  with no second row and the stored row unchanged, where the plain \<open>INSERT\<close> of the same
  row would fail on the primary key; when it cannot, the error of the binding leaves
  \<open>write_sqlite\<close>, and the world is as it was.
\<close>

theorem write_sqlite_existing_key:
  assumes "readings w = Some table" and "fst r \<in> set (map fst table)"
  shows "(\<forall>b. bind_row r = Inr b \<longrightarrow>
            write_sqlite r w = (None, w) \<and> sql_insert Abort table b = Inl SqliteIntegrityError) \<and>
         (\<forall>e. bind_row r = Inl e \<longrightarrow> write_sqlite r w = (Some e, w))"
proof -
  have "write_sqlite r w = (None, w) \<and> sql_insert Abort table b = Inl SqliteIntegrityError"
    if "bind_row r = Inr b" for b
    using assms that bind_row_key [OF that]
    by (simp add: write_sqlite_def ensure_sqlite_def sql_insert_def)
  moreover have "write_sqlite r w = (Some e, w)" if "bind_row r = Inl e" for e
    using assms that by (simp add: write_sqlite_def ensure_sqlite_def)
  ultimately show ?thesis by blast
qed

theorem write_sqlite_existing_key_witness:
  "write_sqlite scenario_row (snd (process_once run_lib False scenario_world)) =
     (None, snd (process_once run_lib False scenario_world)) \<and>
   sql_insert Abort [scenario_bound] scenario_bound = Inl SqliteIntegrityError \<and>
   write_sqlite relabelled_row (snd (process_once run_lib False scenario_world)) =
     (Some SqliteBindError, snd (process_once run_lib False scenario_world))"
proof -
  have a: "readings (snd (process_once run_lib False scenario_world)) = Some [scenario_bound]"
    by (simp add: first_ingest)
  have b: "fst scenario_row \<in> set (map fst [scenario_bound])"
    by (simp add: scenario_row_def scenario_bound_def)
  have c: "fst relabelled_row \<in> set (map fst [scenario_bound])"
    by (simp add: relabelled_row_def scenario_bound_def)
  from write_sqlite_existing_key [OF a b, THEN conjunct1, rule_format, OF bind_scenario]
    write_sqlite_existing_key [OF a c, THEN conjunct2, rule_format, OF bind_relabelled]
  show ?thesis by simp
qed

text \<open>
  The sentence of C4 on every row, at the row of a snapshot whose \<open>updated_label_raw\<close> is
  a list: its key is in the table and \<open>write_sqlite\<close> raises.
\<close>

theorem write_sqlite_unbound_counterexample:
  "parse_row run_lib relabelled_payload = Inr relabelled_row \<and>
   fst relabelled_row \<in> set (map fst (table_of (snd (process_once run_lib False scenario_world)))) \<and>
   write_sqlite relabelled_row (snd (process_once run_lib False scenario_world)) =
     (Some SqliteBindError, snd (process_once run_lib False scenario_world)) \<and>
   fst (write_sqlite relabelled_row (snd (process_once run_lib False scenario_world))) \<noteq> None"
proof -
  have p: "parse_row run_lib relabelled_payload = Inr relabelled_row"
    by (simp add: relabelled_payload_def relabelled_row_def ingest_defs run_defs dict_defs char_class_defs)
  have w: "write_sqlite relabelled_row (snd (process_once run_lib False scenario_world)) =
     (Some SqliteBindError, snd (process_once run_lib False scenario_world))"
    by (simp add: first_ingest write_sqlite_def ensure_sqlite_def bind_relabelled)
  have k: "fst relabelled_row \<in> set (map fst (table_of (snd (process_once run_lib False scenario_world))))"
    by (simp add: first_ingest table_of_def relabelled_row_def scenario_bound_def)
  from p k w show ?thesis by simp
qed

lemma count_distinct_key:
  "distinct (map fst t) \<Longrightarrow> k \<in> set (map fst t) \<Longrightarrow> length (filter (\<lambda>x. fst x = k) t) = 1"
proof (induction t)
  case Nil
  then show ?case by simp
next
  case (Cons a t)
  show ?case
  proof (cases "fst a = k")
    case True
    from Cons.prems(1) True have "k \<notin> fst ` set t"
      by auto
    then have "filter (\<lambda>x. fst x = k) t = []"
      by (auto simp: filter_empty_conv)
    with True show ?thesis by simp
  next
    case False
    with Cons show ?thesis by auto
  qed
qed

lemma process_once_ingests:
  assumes "json_file w = Some (Inr payload)" and "parse_row lib payload = Inr r" and "bind_row r = Inr b"
  shows "fst (process_once lib verbose w) = None"
    and "json_file (snd (process_once lib verbose w)) = json_file w"
    and "table_of (snd (process_once lib verbose w)) =
           (if fst r \<in> set (map fst (table_of w)) then table_of w else table_of w @ [b])"
    and "csv_rows (snd (process_once lib verbose w)) = csv_rows (ensure_csv w) @ [PStr (fst r) # snd r]"
    and "csv_rows (ensure_csv (snd (process_once lib verbose w))) = csv_rows (snd (process_once lib verbose w))"
  using assms bind_row_key [OF assms(3)]
  by (auto simp: process_once_def write_sqlite_def ensure_sqlite_def sql_insert_def write_csv_def
      ensure_csv_def table_of_def csv_rows_def Let_def split: option.splits)

text \<open>
  C1 (as amended). Let the snapshot file parse to a payload from which \<open>parse_row\<close>
  builds a row that SQLite can bind, and let the keys of the table be distinct. Then two
  runs of \<open>process_once\<close> raise nothing and leave exactly one row with the key of the
  snapshot in the table, the second run leaving the table as it is; and each run appends
  the row to the CSV file, so the file ends with the row twice.
\<close>

theorem ingest_twice:
  assumes "json_file w = Some (Inr payload)" and "parse_row lib payload = Inr r"
    and "bind_row r = Inr b" and "distinct (map fst (table_of w))"
  shows "fst (process_once lib verbose w) = None \<and>
         fst (process_once lib verbose (snd (process_once lib verbose w))) = None \<and>
         length (filter (\<lambda>x. fst x = fst r)
           (table_of (snd (process_once lib verbose (snd (process_once lib verbose w)))))) = 1 \<and>
         table_of (snd (process_once lib verbose (snd (process_once lib verbose w)))) =
           table_of (snd (process_once lib verbose w)) \<and>
         csv_rows (snd (process_once lib verbose (snd (process_once lib verbose w)))) =
           csv_rows (ensure_csv w) @ [PStr (fst r) # snd r, PStr (fst r) # snd r]"
proof -
  let ?w1 = "snd (process_once lib verbose w)"
  let ?w2 = "snd (process_once lib verbose ?w1)"
  note one = process_once_ingests [OF assms(1,2,3), of verbose]
  have j1: "json_file ?w1 = Some (Inr payload)"
    using one(2) assms(1) by simp
  note two = process_once_ingests [OF j1 assms(2,3), of verbose]
  have kb: "fst b = fst r" by (rule bind_row_key [OF assms(3)])
  have key1: "fst r \<in> set (map fst (table_of ?w1))"
    using one(3) kb by auto
  have d1: "distinct (map fst (table_of ?w1))"
    using one(3) assms(4) kb by auto
  have t2: "table_of ?w2 = table_of ?w1"
    using two(3) key1 by simp
  have c2: "csv_rows ?w2 = csv_rows (ensure_csv w) @ [PStr (fst r) # snd r, PStr (fst r) # snd r]"
    using two(4) one(4,5) by simp
  have n: "length (filter (\<lambda>x. fst x = fst r) (table_of ?w2)) = 1"
    unfolding t2 by (rule count_distinct_key [OF d1 key1])
  from one(1) two(1) n t2 c2 show ?thesis by blast
qed

theorem ingest_twice_witness:
  "length (filter (\<lambda>x. fst x = fst scenario_row)
     (table_of (snd (process_once run_lib False (snd (process_once run_lib False scenario_world)))))) = 1 \<and>
   csv_rows (snd (process_once run_lib False (snd (process_once run_lib False scenario_world)))) =
     [map PStr COLUMNS, PStr (fst scenario_row) # snd scenario_row, PStr (fst scenario_row) # snd scenario_row]"
proof -
  have a: "json_file scenario_world = Some (Inr scenario_payload)"
    by (simp add: scenario_world_def)
  have d: "distinct (map fst (table_of scenario_world))"
    by (simp add: scenario_world_def table_of_def)
  have e: "csv_rows (ensure_csv scenario_world) = [map PStr COLUMNS]"
    by (simp add: scenario_world_def ensure_csv_def csv_rows_def)
  from ingest_twice [OF a parse_scenario bind_scenario d, of False]
  have n: "length (filter (\<lambda>x. fst x = fst scenario_row)
     (table_of (snd (process_once run_lib False (snd (process_once run_lib False scenario_world)))))) = 1"
    and c: "csv_rows (snd (process_once run_lib False (snd (process_once run_lib False scenario_world)))) =
     csv_rows (ensure_csv scenario_world) @
       [PStr (fst scenario_row) # snd scenario_row, PStr (fst scenario_row) # snd scenario_row]"
    by blast+
  from n c show ?thesis
    unfolding e by simp
qed

theorem ingest_twice_counterexample:
  "log_row_count (snd (process_once run_lib False (snd (process_once run_lib False scenario_world)))) = 2 \<and>
   log_row_count (snd (process_once run_lib False (snd (process_once run_lib False scenario_world)))) \<noteq> 1 \<and>
   store_row_count (snd (process_once run_lib False (snd (process_once run_lib False scenario_world)))) = 1"
  by (simp add: first_ingest process_once_def parse_scenario write_sqlite_def bind_scenario ensure_sqlite_def
      sql_insert_def write_csv_def ensure_csv_def scenario_world_def log_row_count_def store_row_count_def
      csv_rows_def table_of_def)

section \<open>Properties of the snapshot builder\<close>















text \<open>
  C10. The body text read after the click on "Porcentajes" has no part in the result of
  \<open>scrape_once\<close>: whatever that text is, or whether that block fails, the snapshot is
  the second pass over the first pass on the join of the page texts of the first loop.
\<close>

theorem porcentajes_text_unused:
  "scrape_once (env\<lparr>porcentajes := p\<rparr>) = scrape_once env \<and>
   scrape_once env = second_pass env (first_pass (joined_text env) (now env))"
  by (simp add: scrape_once_def second_pass_def joined_text_def Let_def)

section \<open>Properties of the extraction stages\<close>









text \<open>Group 1 is set in every match of a pattern that starts with it.\<close>

lemma star_iter_caps:
  assumes "\<And>t t'. t' \<in> set (body t) \<Longrightarrow> fst ` set (caps t) \<subseteq> fst ` set (caps t')"
  shows "t' \<in> set (star_iter n greedy body t) \<Longrightarrow> fst ` set (caps t) \<subseteq> fst ` set (caps t')"
proof (induction n arbitrary: t t')
  case 0
  then show ?case by simp
next
  case (Suc n)
  from Suc.prems consider "t' = t"
    | u where "u \<in> set (body t)" "t' \<in> set (star_iter n greedy body u)"
    by (auto simp: Let_def split: if_splits)
  then show ?case
  proof cases
    case 1
    then show ?thesis by simp
  next
    case 2
    from assms [OF 2(1)] Suc.IH [OF 2(2)] show ?thesis by blast
  qed
qed

lemma matches_caps:
  "t' \<in> set (matches ic r t) \<Longrightarrow> fst ` set (caps t) \<subseteq> fst ` set (caps t')"
proof (induction r arbitrary: t t')
  case Eps
  then show ?case by simp
next
  case (Sym items)
  then show ?case by (auto simp: step_char_def split: list.splits if_splits)
next
  case (NotSym items)
  then show ?case by (auto simp: step_char_def split: list.splits if_splits)
next
  case (Seq a b)
  from Seq.prems obtain u where "u \<in> set (matches ic a t)" "t' \<in> set (matches ic b u)"
    by auto
  from Seq.IH(1) [OF this(1)] Seq.IH(2) [OF this(2)] show ?case by blast
next
  case (Alt a b)
  from Alt.prems have "t' \<in> set (matches ic a t) \<or> t' \<in> set (matches ic b t)"
    by simp
  with Alt.IH show ?case by blast
next
  case (Star greedy a)
  from Star.prems have "t' \<in> set (star_iter (length (rest t)) greedy (matches ic a) t)"
    by simp
  then show ?case
    by (rule star_iter_caps [rotated]) (rule Star.IH)
next
  case (Grp i a)
  from Grp.prems obtain u where u: "u \<in> set (matches ic a t)"
    and t': "t' = u\<lparr>caps := (i, take (length (rest t) - length (rest u)) (rest t)) # caps u\<rparr>"
    by auto
  from Grp.IH [OF u] t' show ?case by auto
next
  case WordB
  then show ?case by (auto split: if_splits)
qed

lemma matches_group_first:
  assumes "t' \<in> set (matches ic (Seq (Grp i a) b) t)"
  shows "i \<in> fst ` set (caps t')"
proof -
  from assms obtain u v where "v \<in> set (matches ic a t)"
    and u: "u = v\<lparr>caps := (i, take (length (rest t) - length (rest v)) (rest t)) # caps v\<rparr>"
    and t': "t' \<in> set (matches ic b u)"
    by auto
  from u have "i \<in> fst ` set (caps u)" by simp
  with matches_caps [OF t'] show ?thesis by blast
qed

lemma match_at_caps:
  "match_at ic r pos pc s = Some m \<Longrightarrow>
   \<exists>t'. t' \<in> set (matches ic r \<lparr>prev = pc, rest = s, caps = []\<rparr>) \<and> groups m = caps t'"
  by (auto simp: match_at_def split: list.splits)

lemma match_at_group_first:
  assumes "match_at ic (Seq (Grp i a) b) pos pc s = Some m"
  shows "re_group m i \<noteq> None"
proof -
  from match_at_caps [OF assms] obtain t'
    where t': "t' \<in> set (matches ic (Seq (Grp i a) b) \<lparr>prev = pc, rest = s, caps = []\<rparr>)"
      and g: "groups m = caps t'"
    by blast
  from matches_group_first [OF t'] have "map_of (caps t') i \<noteq> None"
    by (simp add: map_of_eq_None_iff)
  with g show ?thesis
    by (simp add: re_group_def)
qed

lemma finditer_at_match:
  "m \<in> set (finditer_at ic r skip pos pc s) \<Longrightarrow> \<exists>pos' pc' s'. match_at ic r pos' pc' s' = Some m"
proof (induction s arbitrary: skip pos pc)
  case Nil
  show ?case
  proof (cases "skip = 0")
    case False
    then have e: "finditer_at ic r skip pos pc [] = []" by simp
    from Nil show ?thesis unfolding e by simp
  next
    case True
    show ?thesis
    proof (cases "match_at ic r pos pc []")
      case None
      with True have e: "finditer_at ic r skip pos pc [] = []" by simp
      from Nil show ?thesis unfolding e by simp
    next
      case (Some m')
      with True have e: "finditer_at ic r skip pos pc [] = [m']" by simp
      from Nil have "m = m'" unfolding e by simp
      with Some show ?thesis by blast
    qed
  qed
next
  case (Cons c cs)
  show ?case
  proof (cases "0 < skip")
    case True
    then have e: "finditer_at ic r skip pos pc (c # cs) = finditer_at ic r (skip - 1) (Suc pos) (Some c) cs"
      by simp
    from Cons.prems have "m \<in> set (finditer_at ic r (skip - 1) (Suc pos) (Some c) cs)"
      unfolding e .
    then show ?thesis by (rule Cons.IH)
  next
    case False
    show ?thesis
    proof (cases "match_at ic r pos pc (c # cs)")
      case None
      with False have e: "finditer_at ic r skip pos pc (c # cs) = finditer_at ic r 0 (Suc pos) (Some c) cs"
        by simp
      from Cons.prems have "m \<in> set (finditer_at ic r 0 (Suc pos) (Some c) cs)"
        unfolding e .
      then show ?thesis by (rule Cons.IH)
    next
      case (Some m')
      with False have e: "finditer_at ic r skip pos pc (c # cs) =
          m' # finditer_at ic r (length (matched m') - 1) (Suc pos) (Some c) cs"
        by simp
      from Cons.prems
      have "m = m' \<or> m \<in> set (finditer_at ic r (length (matched m') - 1) (Suc pos) (Some c) cs)"
        unfolding e by simp
      then show ?thesis
      proof
        assume "m = m'"
        with Some show ?thesis by blast
      next
        assume "m \<in> set (finditer_at ic r (length (matched m') - 1) (Suc pos) (Some c) cs)"
        then show ?thesis by (rule Cons.IH)
      qed
    qed
  qed
qed

lemma fuel_group1: "m \<in> set (finditer True FUEL_REGEX t) \<Longrightarrow> re_group m 1 \<noteq> None"
proof -
  assume "m \<in> set (finditer True FUEL_REGEX t)"
  then obtain pos pc s where m: "match_at True FUEL_REGEX pos pc s = Some m"
    unfolding finditer_def by (blast dest: finditer_at_match)
  have "\<exists>a b. FUEL_REGEX = Seq (Grp 1 a) b"
    by (simp add: FUEL_REGEX_def seqs_def)
  then obtain a b where "FUEL_REGEX = Seq (Grp 1 a) b" by blast
  with m match_at_group_first [of True 1 a b pos pc s m] show ?thesis by simp
qed



















end
